theory Spec2Isabelle
  imports Complex_Main
begin

section \<open>Values shared by the web framework and the reporting SDK\<close>

text \<open>
  A Go \<open>error\<close> as the package sees it. The middleware distinguishes only whether the
  dynamic type is \<open>*fiber.Error\<close> (which carries \<open>Code\<close> and \<open>Message\<close>) or anything
  else. \<open>NilFiberError\<close> is the non-nil interface value holding a nil \<open>*fiber.Error\<close>:
  the type assertion succeeds on it and reading \<open>e.Code\<close> dereferences nil.
  \<open>WrapError\<close> is what \<open>fmt.Errorf("...: %w", err)\<close> builds.
\<close>

datatype go_error =
    FiberError int string
  | NilFiberError
  | PlainError string
  | WrapError string go_error

text \<open>The value carried by a panic: whatever the handler passed to \<open>panic\<close>, or the
  runtime error of a nil dereference. With the module's \<open>go 1.23\<close> directive a recovered
  panic value is never nil.\<close>

datatype panic_val = UserPanic string | RuntimeNilDeref

datatype Level = LevelDebug | LevelInfo | LevelWarning | LevelError | LevelFatal

text \<open>The values the package stores in a \<open>map[string]interface{}\<close>.\<close>

datatype ctx_val = VStr string | VInt int | VHeaders "string \<rightharpoonup> string"

type_synonym Context = "string \<rightharpoonup> ctx_val"

type_synonym hub_ptr = nat

section \<open>The reporting SDK, as far as the package drives it\<close>

text \<open>
  The SDK is a dependency of the package. This section fixes the part of its contract that
  the package relies on: a hub holds a client (or none) and a scope; \<open>Clone\<close> makes a new
  hub that shares the client and owns a copy of the scope; the scope setters overwrite one
  entry of the scope they are called on; a capture call builds its event from the hub's
  scope at the moment of the call and hands it to the hub's client, and does nothing more
  than return nil when no client is bound; \<open>Flush\<close> changes neither scopes nor events.
  Hubs are handled through pointers, and a method called on a nil hub pointer dereferences
  nil: the functions below take the address of a hub that exists, and where the package
  may hold a nil pointer the dereference is a branch of the package function that holds it.
\<close>

record User =
  ID :: string
  Email :: string
  Username :: string

record Breadcrumb =
  bc_Message :: string
  bc_Category :: string
  bc_Data :: Context
  bc_Level :: Level

record Scope =
  tags :: "string \<rightharpoonup> string"
  contexts :: "string \<rightharpoonup> Context"
  user :: "User option"
  level :: "Level option"
  breadcrumbs :: "Breadcrumb list"

datatype payload =
    ExceptionPayload go_error
  | MessagePayload string
  | PanicPayload panic_val

text \<open>An event is built when a capture call is made: it carries what was captured and a
  copy of the capturing hub's scope as it was at that moment.\<close>

record Event =
  ev_hub :: hub_ptr
  ev_payload :: payload
  ev_scope :: Scope

record ClientOptions =
  Dsn :: string
  opt_Environment :: string
  opt_Release :: string
  opt_TracesSampleRate :: real
  opt_Debug :: bool
  opt_AttachStacktrace :: bool
  opt_ServerName :: string
  BeforeSend :: "Event \<Rightarrow> Event option"

record Hub =
  hub_client :: "ClientOptions option"
  hub_scope :: Scope

text \<open>Every call that reaches the SDK's initialisation, capture, recovery or flush entry
  points is recorded in order, with the hub it was made on.\<close>

datatype sdk_call =
    InitCall ClientOptions
  | CaptureExceptionCall hub_ptr go_error
  | CaptureMessageCall hub_ptr string
  | RecoverCall hub_ptr panic_val
  | FlushCall hub_ptr int

text \<open>
  The SDK's process-wide state: a store of hubs by address (hubs are handled through
  pointers, so two holders of one address share its scope), the number of hubs cloned so
  far, the record of calls, and the events handed to a bound client. Address \<open>0\<close> is the
  global hub; clones get the addresses \<open>1, 2, ...\<close>.
\<close>

record sdk =
  hubs :: "hub_ptr \<Rightarrow> Hub"
  hub_count :: nat
  calls :: "sdk_call list"
  events :: "Event list"

definition CurrentHub :: hub_ptr where
  "CurrentHub = 0"

definition hub_Clone :: "hub_ptr \<Rightarrow> sdk \<Rightarrow> hub_ptr \<times> sdk" where
  "hub_Clone h s =
     (let p = Suc (hub_count s)
      in (p, s\<lparr>hubs := (hubs s)(p := hubs s h), hub_count := p\<rparr>))"

definition update_scope :: "hub_ptr \<Rightarrow> (Scope \<Rightarrow> Scope) \<Rightarrow> sdk \<Rightarrow> sdk" where
  "update_scope h f s =
     s\<lparr>hubs := (hubs s)(h := (hubs s h)\<lparr>hub_scope := f (hub_scope (hubs s h))\<rparr>)\<rparr>"

definition scope_SetTag :: "string \<Rightarrow> string \<Rightarrow> Scope \<Rightarrow> Scope" where
  "scope_SetTag k v sc = sc\<lparr>tags := (tags sc)(k \<mapsto> v)\<rparr>"

definition scope_SetContext :: "string \<Rightarrow> Context \<Rightarrow> Scope \<Rightarrow> Scope" where
  "scope_SetContext k d sc = sc\<lparr>contexts := (contexts sc)(k \<mapsto> d)\<rparr>"

definition scope_SetUser :: "User \<Rightarrow> Scope \<Rightarrow> Scope" where
  "scope_SetUser u sc = sc\<lparr>user := Some u\<rparr>"

definition scope_SetLevel :: "Level \<Rightarrow> Scope \<Rightarrow> Scope" where
  "scope_SetLevel l sc = sc\<lparr>level := Some l\<rparr>"

text \<open>A scope keeps the newest breadcrumbs up to a limit. The package sets no limit of its
  own, so the SDK's default applies; it is the parameter \<open>limit\<close>.\<close>

definition scope_AddBreadcrumb :: "nat \<Rightarrow> Breadcrumb \<Rightarrow> Scope \<Rightarrow> Scope" where
  "scope_AddBreadcrumb limit b sc =
     (let bs = breadcrumbs sc @ [b]
      in sc\<lparr>breadcrumbs := (if length bs > limit then take limit (tl bs) else bs)\<rparr>)"

text \<open>Handing an event to the hub's client: without a bound client nothing is built and
  the caller gets a nil event id; with one, the event passes the \<open>BeforeSend\<close> hook.\<close>

definition deliver :: "hub_ptr \<Rightarrow> payload \<Rightarrow> sdk \<Rightarrow> nat option \<times> sdk" where
  "deliver h p s =
     (case hub_client (hubs s h) of
        None \<Rightarrow> (None, s)
      | Some opts \<Rightarrow>
          (case BeforeSend opts \<lparr>ev_hub = h, ev_payload = p, ev_scope = hub_scope (hubs s h)\<rparr> of
             None \<Rightarrow> (None, s)
           | Some ev \<Rightarrow> (Some (length (events s)), s\<lparr>events := events s @ [ev]\<rparr>)))"

definition hub_CaptureException :: "hub_ptr \<Rightarrow> go_error \<Rightarrow> sdk \<Rightarrow> nat option \<times> sdk" where
  "hub_CaptureException h e s =
     deliver h (ExceptionPayload e) (s\<lparr>calls := calls s @ [CaptureExceptionCall h e]\<rparr>)"

definition hub_CaptureMessage :: "hub_ptr \<Rightarrow> string \<Rightarrow> sdk \<Rightarrow> nat option \<times> sdk" where
  "hub_CaptureMessage h m s =
     deliver h (MessagePayload m) (s\<lparr>calls := calls s @ [CaptureMessageCall h m]\<rparr>)"

definition hub_Recover :: "hub_ptr \<Rightarrow> panic_val \<Rightarrow> sdk \<Rightarrow> nat option \<times> sdk" where
  "hub_Recover h v s =
     deliver h (PanicPayload v) (s\<lparr>calls := calls s @ [RecoverCall h v]\<rparr>)"

definition hub_AddBreadcrumb :: "nat \<Rightarrow> hub_ptr \<Rightarrow> Breadcrumb \<Rightarrow> sdk \<Rightarrow> sdk" where
  "hub_AddBreadcrumb limit h b s = update_scope h (scope_AddBreadcrumb limit b) s"

definition hub_Flush :: "hub_ptr \<Rightarrow> int \<Rightarrow> sdk \<Rightarrow> sdk" where
  "hub_Flush h timeout s = s\<lparr>calls := calls s @ [FlushCall h timeout]\<rparr>"

text \<open>\<open>sentry.Init\<close>: builds a client from the options and binds it to the global hub, or
  rejects the options. What it rejects is the SDK's business and is a parameter here.\<close>

definition sentry_Init ::
  "(ClientOptions \<Rightarrow> go_error option) \<Rightarrow> ClientOptions \<Rightarrow> sdk \<Rightarrow> go_error option \<times> sdk" where
  "sentry_Init reject opts s =
     (let s1 = s\<lparr>calls := calls s @ [InitCall opts]\<rparr>
      in case reject opts of
           Some err \<Rightarrow> (Some err, s1)
         | None \<Rightarrow>
             (None, s1\<lparr>hubs := (hubs s1)(CurrentHub := (hubs s1 CurrentHub)\<lparr>hub_client := Some opts\<rparr>)\<rparr>))"

section \<open>The request context of the web framework\<close>

text \<open>What a handler can keep in request-local storage: a value of type \<open>*sentry.Hub\<close>,
  or a value of any other type. A value of type \<open>*sentry.Hub\<close> is the address of a hub or
  the nil pointer (\<open>HubVal None\<close>); stored in an interface, the nil pointer is not a nil
  interface.\<close>

datatype local_val = HubVal "hub_ptr option" | OtherVal string

text \<open>
  The part of \<open>fiber.Ctx\<close> the package reads and writes. \<open>VisitAll\<close> is the sequence of
  \<open>(key, value)\<close> pairs that \<open>c.Request().Header.VisitAll\<close> passes to its callback, in
  order; a header name sent twice is visited twice. \<open>Params\<close> gives \<open>""\<close> for a route
  parameter that is not there, \<open>Locals\<close> gives nil (\<open>None\<close>) for a key never stored.
\<close>

record Ctx =
  OriginalURL :: string
  Method :: string
  Path :: string
  QueryString :: string
  VisitAll :: "(string \<times> string) list"
  IP :: string
  Get :: "string \<Rightarrow> string"
  Params :: "string \<Rightarrow> string"
  Locals :: "string \<rightharpoonup> local_val"

section \<open>middleware: header filtering\<close>

fun extractHeaders_visit :: "(string \<times> string) list \<Rightarrow> (string \<rightharpoonup> string) \<Rightarrow> (string \<rightharpoonup> string)" where
  "extractHeaders_visit [] headers = headers"
| "extractHeaders_visit ((keyStr, v) # rest) headers =
     extractHeaders_visit rest
       (if keyStr \<noteq> ''Authorization'' \<and> keyStr \<noteq> ''Cookie'' \<and> keyStr \<noteq> ''X-Api-Key''
        then headers(keyStr \<mapsto> v) else headers)"

definition extractHeaders :: "Ctx \<Rightarrow> (string \<rightharpoonup> string)" where
  "extractHeaders c = extractHeaders_visit (VisitAll c) Map.empty"

definition denylist :: "string set" where
  "denylist = {''Authorization'', ''Cookie'', ''X-Api-Key''}"

section \<open>client: initialisation and the global convenience functions\<close>

record Config =
  DSN :: string
  Environment :: string
  Release :: string
  TracesSampleRate :: real
  Debug :: bool
  AttachStacktrace :: bool
  ServerName :: string

definition DefaultConfig :: Config where
  "DefaultConfig =
     \<lparr>DSN = [], Environment = ''development'', Release = [], TracesSampleRate = 1,
      Debug = False, AttachStacktrace = True, ServerName = []\<rparr>"

text \<open>\<open>err.Error()\<close>: the message of an error; on a nil \<open>*fiber.Error\<close> the method
  dereferences nil and panics.\<close>

fun error_Error :: "go_error \<Rightarrow> panic_val + string" where
  "error_Error (FiberError code msg) = Inr msg"
| "error_Error NilFiberError = Inl RuntimeNilDeref"
| "error_Error (PlainError msg) = Inr msg"
| "error_Error (WrapError msg inner) = Inr msg"

text \<open>How \<open>fmt\<close> renders an error operand: its message, or \<open><nil>\<close> when the
  \<open>Error\<close> method panics on a nil receiver.\<close>

definition fmt_error :: "go_error \<Rightarrow> string" where
  "fmt_error e = (case error_Error e of Inl _ \<Rightarrow> ''<nil>'' | Inr msg \<Rightarrow> msg)"

definition Init ::
  "(ClientOptions \<Rightarrow> go_error option) \<Rightarrow> Config \<Rightarrow> sdk \<Rightarrow> go_error option \<times> sdk" where
  "Init reject cfg0 s =
     (if DSN cfg0 = [] then (Some (PlainError ''sentry DSN is required''), s)
      else
        let cfg = (if Environment cfg0 = [] then cfg0\<lparr>Environment := ''development''\<rparr> else cfg0);
            (err, s1) =
              sentry_Init reject
                \<lparr>Dsn = DSN cfg,
                 opt_Environment = Environment cfg,
                 opt_Release = Release cfg,
                 opt_TracesSampleRate = TracesSampleRate cfg,
                 opt_Debug = Debug cfg,
                 opt_AttachStacktrace = AttachStacktrace cfg,
                 opt_ServerName = ServerName cfg,
                 BeforeSend = (\<lambda>event. Some event)\<rparr> s
        in case err of
             Some e \<Rightarrow> (Some (WrapError (''failed to initialize Sentry: '' @ fmt_error e) e), s1)
           | None \<Rightarrow> (None, s1))"

definition Second :: int where
  "Second = 1000000000"

definition Close :: "sdk \<Rightarrow> sdk" where
  "Close s = hub_Flush CurrentHub (2 * Second) s"

definition CaptureException :: "go_error \<Rightarrow> sdk \<Rightarrow> nat option \<times> sdk" where
  "CaptureException err s = hub_CaptureException CurrentHub err s"

definition ConfigureScope :: "(Scope \<Rightarrow> Scope) \<Rightarrow> sdk \<Rightarrow> sdk" where
  "ConfigureScope f s = update_scope CurrentHub f s"

definition CaptureMessage :: "string \<Rightarrow> Level \<Rightarrow> sdk \<Rightarrow> nat option \<times> sdk" where
  "CaptureMessage message lvl s =
     (let (event, s1) = hub_CaptureMessage CurrentHub message s;
          s2 = ConfigureScope (scope_SetLevel lvl) s1
      in (event, s2))"

text \<open>\<open>RecoverWithSentry\<close> runs deferred; its argument is what \<open>recover()\<close> yields there:
  the value of the panic in flight, if any.\<close>

definition RecoverWithSentry :: "panic_val option \<Rightarrow> sdk \<Rightarrow> sdk" where
  "RecoverWithSentry r s =
     (case r of
        None \<Rightarrow> s
      | Some err \<Rightarrow> hub_Flush CurrentHub (2 * Second) (snd (hub_Recover CurrentHub err s)))"

definition AddBreadcrumb :: "nat \<Rightarrow> string \<Rightarrow> string \<Rightarrow> Context \<Rightarrow> sdk \<Rightarrow> sdk" where
  "AddBreadcrumb limit message category d s =
     hub_AddBreadcrumb limit CurrentHub
       \<lparr>bc_Message = message, bc_Category = category, bc_Data = d, bc_Level = LevelInfo\<rparr> s"

definition SetUser :: "string \<Rightarrow> string \<Rightarrow> string \<Rightarrow> sdk \<Rightarrow> sdk" where
  "SetUser userID email username s =
     ConfigureScope (scope_SetUser \<lparr>ID = userID, Email = email, Username = username\<rparr>) s"

definition SetTag :: "string \<Rightarrow> string \<Rightarrow> sdk \<Rightarrow> sdk" where
  "SetTag key v s = ConfigureScope (scope_SetTag key v) s"

definition SetContext :: "string \<Rightarrow> Context \<Rightarrow> sdk \<Rightarrow> sdk" where
  "SetContext key d s = ConfigureScope (scope_SetContext key d) s"

section \<open>middleware\<close>

record MiddlewareConfig =
  Repanic :: bool
  WaitForDelivery :: bool
  Timeout :: int

definition DefaultMiddlewareConfig :: MiddlewareConfig where
  "DefaultMiddlewareConfig = \<lparr>Repanic = False, WaitForDelivery = False, Timeout = 2 * Second\<rparr>"

text \<open>How a handler invocation ends: it returns an error (or nil), or it panics.\<close>

datatype outcome = Returns "go_error option" | Panics panic_val

text \<open>\<open>c.Next()\<close>: the rest of the handler chain. It may change the request context and
  drive the SDK before it returns or panics.\<close>

type_synonym handler = "Ctx \<times> sdk \<Rightarrow> outcome \<times> Ctx \<times> sdk"

definition StatusInternalServerError :: int where
  "StatusInternalServerError = 500"

text \<open>Lines 92 to 95 of the middleware: 500 unless the error is a \<open>*fiber.Error\<close>, whose
  \<open>Code\<close> is read; \<open>None\<close> when that read dereferences nil.\<close>

fun status_code :: "go_error \<Rightarrow> int option" where
  "status_code (FiberError code msg) = Some code"
| "status_code NilFiberError = None"
| "status_code (PlainError msg) = Some StatusInternalServerError"
| "status_code (WrapError msg inner) = Some StatusInternalServerError"

text \<open>The entry phase (lines 41 to 70): clone the global hub, describe the request in the
  clone's scope, store the clone in request-local storage. \<open>Sprintf_v\<close> is
  \<open>fmt.Sprintf("%v", \<cdot>)\<close>.\<close>

definition New_entry :: "(local_val \<Rightarrow> string) \<Rightarrow> Ctx \<Rightarrow> sdk \<Rightarrow> hub_ptr \<times> Ctx \<times> sdk" where
  "New_entry Sprintf_v c s =
     (let (hub, s1) = hub_Clone CurrentHub s;
          s2 = update_scope hub (scope_SetContext ''request''
                 [''url'' \<mapsto> VStr (OriginalURL c),
                  ''method'' \<mapsto> VStr (Method c),
                  ''query_string'' \<mapsto> VStr (QueryString c),
                  ''headers'' \<mapsto> VHeaders (extractHeaders c),
                  ''ip'' \<mapsto> VStr (IP c),
                  ''user_agent'' \<mapsto> VStr (Get c ''User-Agent'')]) s1;
          s3 = update_scope hub (scope_SetTag ''path'' (Path c)) s2;
          s4 = update_scope hub (scope_SetTag ''method'' (Method c)) s3;
          s5 = (case Locals c ''user_id'' of
                  Some userID \<Rightarrow>
                    update_scope hub (scope_SetUser \<lparr>ID = Sprintf_v userID, Email = [], Username = []\<rparr>) s4
                | None \<Rightarrow> s4);
          s6 = (if Params c ''tenantId'' \<noteq> []
                then update_scope hub (scope_SetTag ''tenant_id'' (Params c ''tenantId'')) s5
                else s5)
      in (hub, c\<lparr>Locals := (Locals c)(''sentry_hub'' \<mapsto> HubVal (Some hub))\<rparr>, s6))"

text \<open>The deferred function (lines 73 to 85), when \<open>recover()\<close> yields the value \<open>err\<close>.
  A recovered panic that is not raised again makes the middleware return nil.\<close>

definition New_deferred ::
  "MiddlewareConfig \<Rightarrow> hub_ptr \<Rightarrow> panic_val \<Rightarrow> Ctx \<Rightarrow> sdk \<Rightarrow> outcome \<times> Ctx \<times> sdk" where
  "New_deferred cfg hub err c s =
     (let s1 = snd (hub_Recover hub err s);
          s2 = (if WaitForDelivery cfg then hub_Flush hub (Timeout cfg) s1 else s1)
      in (if Repanic cfg then Panics err else Returns None, c, s2))"

text \<open>The exit phase (lines 90 to 116), after \<open>c.Next()\<close> returned \<open>err\<close>: \<open>Inr\<close> the state
  in which the middleware returns \<open>err\<close>, \<open>Inl\<close> a panic raised on the way.\<close>

definition New_exit ::
  "MiddlewareConfig \<Rightarrow> hub_ptr \<Rightarrow> go_error option \<Rightarrow> Ctx \<Rightarrow> sdk \<Rightarrow> (panic_val \<times> sdk) + sdk" where
  "New_exit cfg hub err c s =
     (let captured =
        (case err of
           None \<Rightarrow> Inr s
         | Some e \<Rightarrow>
             (case status_code e of
                None \<Rightarrow> Inl (RuntimeNilDeref, s)
              | Some code \<Rightarrow>
                  if code \<ge> 500 then
                    let s1 = snd (hub_CaptureException hub e s)
                    in (case error_Error e of
                          Inl pv \<Rightarrow> Inl (pv, s1)
                        | Inr msg \<Rightarrow>
                            Inr (update_scope hub (scope_SetContext ''error_details''
                                   [''error'' \<mapsto> VStr msg,
                                    ''path'' \<mapsto> VStr (Path c),
                                    ''method'' \<mapsto> VStr (Method c),
                                    ''status'' \<mapsto> VInt code,
                                    ''ip'' \<mapsto> VStr (IP c),
                                    ''user_agent'' \<mapsto> VStr (Get c ''User-Agent'')]) s1))
                  else Inr s))
      in case captured of
           Inl p \<Rightarrow> Inl p
         | Inr s2 \<Rightarrow> Inr (if WaitForDelivery cfg then hub_Flush hub (Timeout cfg) s2 else s2))"

text \<open>Lines 34 to 37: the first configuration given, or the default.\<close>

definition New_cfg :: "MiddlewareConfig list \<Rightarrow> MiddlewareConfig" where
  "New_cfg config = (if length config > 0 then config ! 0 else DefaultMiddlewareConfig)"

text \<open>\<open>New(config...)\<close> applied to a request: \<open>config\<close> is the variadic argument,
  \<open>next\<close> the rest of the chain.\<close>

definition New ::
  "MiddlewareConfig list \<Rightarrow> (local_val \<Rightarrow> string) \<Rightarrow> handler \<Rightarrow> Ctx \<Rightarrow> sdk \<Rightarrow> outcome \<times> Ctx \<times> sdk" where
  "New config Sprintf_v next c s =
     (let cfg = New_cfg config;
          (hub, c1, s1) = New_entry Sprintf_v c s
      in case next (c1, s1) of
           (Panics v, c2, s2) \<Rightarrow> New_deferred cfg hub v c2 s2
         | (Returns err, c2, s2) \<Rightarrow>
             (case New_exit cfg hub err c2 s2 of
                Inl (v, s3) \<Rightarrow> New_deferred cfg hub v c2 s3
              | Inr s3 \<Rightarrow> (Returns err, c2, s3)))"

section \<open>middleware: the context-aware convenience functions\<close>

text \<open>The type assertion of line 137 succeeds on every value of type \<open>*sentry.Hub\<close>,
  the nil pointer included, and the pointer is returned as it is (\<open>None\<close> is nil); the
  global hub is returned only when the key is absent or holds a value of another type.\<close>

definition GetHubFromContext :: "Ctx \<Rightarrow> hub_ptr option" where
  "GetHubFromContext c =
     (case Locals c ''sentry_hub'' of
        Some (HubVal hub) \<Rightarrow> hub
      | _ \<Rightarrow> Some CurrentHub)"

text \<open>The functions below call a method on the hub they get. On a nil hub the first
  method call dereferences nil and the function panics (\<open>Inl\<close>); otherwise it returns
  (\<open>Inr\<close>).\<close>

definition CaptureExceptionFromContext ::
  "Ctx \<Rightarrow> go_error \<Rightarrow> sdk \<Rightarrow> panic_val + (nat option \<times> sdk)" where
  "CaptureExceptionFromContext c err s =
     (case GetHubFromContext c of
        None \<Rightarrow> Inl RuntimeNilDeref
      | Some hub \<Rightarrow> Inr (hub_CaptureException hub err s))"

definition CaptureMessageFromContext ::
  "Ctx \<Rightarrow> string \<Rightarrow> Level \<Rightarrow> sdk \<Rightarrow> panic_val + (nat option \<times> sdk)" where
  "CaptureMessageFromContext c message lvl s =
     (case GetHubFromContext c of
        None \<Rightarrow> Inl RuntimeNilDeref
      | Some hub \<Rightarrow> Inr (hub_CaptureMessage hub message (update_scope hub (scope_SetLevel lvl) s)))"





section \<open>Interleaved tag writes of two requests in flight\<close>



fun is_flush :: "sdk_call \<Rightarrow> bool" where
  "is_flush (FlushCall h t) = True"
| "is_flush _ = False"

fun is_capture :: "sdk_call \<Rightarrow> bool" where
  "is_capture (CaptureExceptionCall h e) = True"
| "is_capture (CaptureMessageCall h m) = True"
| "is_capture (RecoverCall h v) = True"
| "is_capture _ = False"

section \<open>Concrete requests and states\<close>

definition empty_scope :: Scope where
  "empty_scope =
     \<lparr>tags = Map.empty, contexts = Map.empty, user = None, level = None, breadcrumbs = []\<rparr>"

text \<open>The SDK before any initialisation: no client bound anywhere, nothing recorded.\<close>

definition sdk_fresh :: sdk where
  "sdk_fresh =
     \<lparr>hubs = (\<lambda>_. \<lparr>hub_client = None, hub_scope = empty_scope\<rparr>),
      hub_count = 0, calls = [], events = []\<rparr>"

text \<open>The SDK after a successful \<open>Init\<close> with a DSN the SDK accepts.\<close>

definition sdk_ready :: sdk where
  "sdk_ready = snd (Init (\<lambda>_. None) (DefaultConfig\<lparr>DSN := ''https://key@sentry.example/1''\<rparr>) sdk_fresh)"

definition example_ctx :: Ctx where
  "example_ctx =
     \<lparr>OriginalURL = ''/orders?id=7'', Method = ''GET'', Path = ''/orders'',
      QueryString = ''id=7'',
      VisitAll = [(''Host'', ''example.org''), (''User-Agent'', ''curl''),
                  (''Authorization'', ''Bearer t''), (''Cookie'', ''sid=1''),
                  (''X-Api-Key'', ''k''), (''Accept'', ''*/*'')],
      IP = ''10.0.0.1'',
      Get = (\<lambda>k. if k = ''User-Agent'' then ''curl'' else []),
      Params = (\<lambda>_. []),
      Locals = Map.empty\<rparr>"


text \<open>A request that carries the header name \<open>X-Trace\<close> twice.\<close>

definition dup_ctx :: Ctx where
  "dup_ctx = example_ctx\<lparr>VisitAll := [(''X-Trace'', ''a''), (''X-Trace'', ''b'')]\<rparr>"

definition example_Sprintf_v :: "local_val \<Rightarrow> string" where
  "example_Sprintf_v x = (case x of OtherVal r \<Rightarrow> r | HubVal p \<Rightarrow> ''&{}'')"

text \<open>An SDK that accepts every configuration it is given.\<close>

definition accept_all :: "ClientOptions \<Rightarrow> go_error option" where
  "accept_all opts = None"

text \<open>Two requests entered through the middleware, one after the other.\<close>

definition entered_A :: "hub_ptr \<times> Ctx \<times> sdk" where
  "entered_A = New_entry example_Sprintf_v example_ctx sdk_ready"


text \<open>Handler chains that do nothing but end: with nil, with a 503, with a 404, with a
  panic.\<close>

definition handler_ok :: handler where
  "handler_ok = (\<lambda>(c, s). (Returns None, c, s))"

definition handler_503 :: handler where
  "handler_503 = (\<lambda>(c, s). (Returns (Some (FiberError 503 ''unavailable'')), c, s))"

definition handler_404 :: handler where
  "handler_404 = (\<lambda>(c, s). (Returns (Some (FiberError 404 ''not found'')), c, s))"

definition handler_panic :: handler where
  "handler_panic = (\<lambda>(c, s). (Panics (UserPanic ''boom''), c, s))"

definition wait_cfg :: MiddlewareConfig where
  "wait_cfg = \<lparr>Repanic = False, WaitForDelivery = True, Timeout = 5 * Second\<rparr>"

definition repanic_cfg :: MiddlewareConfig where
  "repanic_cfg = \<lparr>Repanic = True, WaitForDelivery = True, Timeout = 5 * Second\<rparr>"

text \<open>The entry \<open>field\<close> of the context stored under \<open>name\<close> in a scope, if both exist.\<close>

definition context_entry :: "Scope \<Rightarrow> string \<Rightarrow> string \<Rightarrow> ctx_val option" where
  "context_entry sc name field = (case contexts sc name of None \<Rightarrow> None | Some d \<Rightarrow> d field)"

text \<open>The middleware with its default configuration on a request whose handler returns a
  503, the SDK initialised.\<close>

definition result_503 :: "outcome \<times> Ctx \<times> sdk" where
  "result_503 = New [] example_Sprintf_v handler_503 example_ctx sdk_ready"

section \<open>Facts about the SDK operations\<close>

lemma update_scope_fields:
  "calls (update_scope h f s) = calls s"
  "events (update_scope h f s) = events s"
  "hub_count (update_scope h f s) = hub_count s"
  "hub_client (hubs (update_scope h f s) p) = hub_client (hubs s p)"
  "hub_scope (hubs (update_scope h f s) p) =
     (if p = h then f (hub_scope (hubs s h)) else hub_scope (hubs s p))"
  by (simp_all add: update_scope_def)

lemma deliver_fields:
  "calls (snd (deliver h p s)) = calls s"
  "hubs (snd (deliver h p s)) = hubs s"
  "hub_count (snd (deliver h p s)) = hub_count s"
  by (simp_all add: deliver_def split: option.splits)

lemma deliver_unbound:
  "hub_client (hubs s h) = None \<Longrightarrow> deliver h p s = (None, s)"
  by (simp add: deliver_def)

lemma deliver_bound:
  "hub_client (hubs s h) = Some opts \<Longrightarrow> BeforeSend opts = Some \<Longrightarrow>
   deliver h p s =
     (Some (length (events s)),
      s\<lparr>events := events s @ [\<lparr>ev_hub = h, ev_payload = p, ev_scope = hub_scope (hubs s h)\<rparr>]\<rparr>)"
  by (simp add: deliver_def)

lemma hub_CaptureException_fields:
  "calls (snd (hub_CaptureException h e s)) = calls s @ [CaptureExceptionCall h e]"
  "hubs (snd (hub_CaptureException h e s)) = hubs s"
  "hub_count (snd (hub_CaptureException h e s)) = hub_count s"
  by (simp_all add: hub_CaptureException_def deliver_fields)

lemma hub_CaptureMessage_fields:
  "calls (snd (hub_CaptureMessage h m s)) = calls s @ [CaptureMessageCall h m]"
  "hubs (snd (hub_CaptureMessage h m s)) = hubs s"
  by (simp_all add: hub_CaptureMessage_def deliver_fields)

lemma hub_Recover_fields:
  "calls (snd (hub_Recover h v s)) = calls s @ [RecoverCall h v]"
  "hubs (snd (hub_Recover h v s)) = hubs s"
  by (simp_all add: hub_Recover_def deliver_fields)

lemma hub_Flush_fields:
  "calls (hub_Flush h t s) = calls s @ [FlushCall h t]"
  "hubs (hub_Flush h t s) = hubs s"
  "events (hub_Flush h t s) = events s"
  by (simp_all add: hub_Flush_def)

section \<open>The paths through the middleware\<close>

lemma New_panics:
  assumes "New_entry Sprintf_v c s = (hub, c1, s1)"
    and "next (c1, s1) = (Panics v, c2, s2)"
  shows "New config Sprintf_v next c s = New_deferred (New_cfg config) hub v c2 s2"
  using assms by (simp add: New_def)

lemma New_returns:
  assumes "New_entry Sprintf_v c s = (hub, c1, s1)"
    and "next (c1, s1) = (Returns err, c2, s2)"
  shows "New config Sprintf_v next c s =
     (case New_exit (New_cfg config) hub err c2 s2 of
        Inl (v, s3) \<Rightarrow> New_deferred (New_cfg config) hub v c2 s3
      | Inr s3 \<Rightarrow> (Returns err, c2, s3))"
  using assms by (simp add: New_def Let_def)

lemma status_code_Error:
  "status_code e = Some code \<Longrightarrow> \<exists>msg. error_Error e = Inr msg"
  by (cases e) simp_all

lemma New_exit_nil:
  "New_exit cfg hub None c s =
     Inr (if WaitForDelivery cfg then hub_Flush hub (Timeout cfg) s else s)"
  by (simp add: New_exit_def)

lemma New_exit_below_500:
  "status_code e = Some code \<Longrightarrow> code < 500 \<Longrightarrow>
   New_exit cfg hub (Some e) c s =
     Inr (if WaitForDelivery cfg then hub_Flush hub (Timeout cfg) s else s)"
  by (simp add: New_exit_def)

lemma New_exit_nil_deref:
  "status_code e = None \<Longrightarrow> New_exit cfg hub (Some e) c s = Inl (RuntimeNilDeref, s)"
  by (simp add: New_exit_def)

lemma New_exit_5xx:
  "status_code e = Some code \<Longrightarrow> code \<ge> 500 \<Longrightarrow> error_Error e = Inr msg \<Longrightarrow>
   New_exit cfg hub (Some e) c s =
     (let s1 = snd (hub_CaptureException hub e s);
          s2 = update_scope hub (scope_SetContext ''error_details''
                 [''error'' \<mapsto> VStr msg,
                  ''path'' \<mapsto> VStr (Path c),
                  ''method'' \<mapsto> VStr (Method c),
                  ''status'' \<mapsto> VInt code,
                  ''ip'' \<mapsto> VStr (IP c),
                  ''user_agent'' \<mapsto> VStr (Get c ''User-Agent'')]) s1
      in Inr (if WaitForDelivery cfg then hub_Flush hub (Timeout cfg) s2 else s2))"
  by (simp add: New_exit_def Let_def)

text \<open>On a 5xx error the middleware makes one capture call on the request's hub and returns
  the error; the \<open>error_details\<close> context is in the hub's scope when it returns. With a
  client whose hook passes events through, the event it built carries the scope as the
  handler chain left it.\<close>

lemma New_5xx:
  assumes "New_entry Sprintf_v c s = (hub, c1, s1)"
    and "next (c1, s1) = (Returns (Some e), c2, s2)"
    and "status_code e = Some code" and "code \<ge> 500"
  shows "\<exists>s3. New config Sprintf_v next c s = (Returns (Some e), c2, s3)
           \<and> calls s3 = calls s2 @ CaptureExceptionCall hub e #
                (if WaitForDelivery (New_cfg config)
                 then [FlushCall hub (Timeout (New_cfg config))] else [])
           \<and> (\<exists>d. contexts (hub_scope (hubs s3 hub)) ''error_details'' = Some d
                  \<and> d ''status'' = Some (VInt code))"
proof -
  obtain msg where m: "error_Error e = Inr msg"
    using status_code_Error[OF assms(3)] by blast
  show ?thesis
    using assms m
    by (simp add: New_returns New_exit_5xx Let_def hub_Flush_fields update_scope_fields
        hub_CaptureException_fields scope_SetContext_def)
qed

lemma New_5xx_event:
  assumes "New_entry Sprintf_v c s = (hub, c1, s1)"
    and "next (c1, s1) = (Returns (Some e), c2, s2)"
    and "status_code e = Some code" and "code \<ge> 500"
    and "hub_client (hubs s2 hub) = Some opts" and "BeforeSend opts = Some"
  shows "events (snd (snd (New config Sprintf_v next c s))) =
           events s2 @ [\<lparr>ev_hub = hub, ev_payload = ExceptionPayload e,
                         ev_scope = hub_scope (hubs s2 hub)\<rparr>]"
proof -
  obtain msg where m: "error_Error e = Inr msg"
    using status_code_Error[OF assms(3)] by blast
  have d: "deliver hub (ExceptionPayload e) (s2\<lparr>calls := calls s2 @ [CaptureExceptionCall hub e]\<rparr>) =
        (Some (length (events s2)),
         s2\<lparr>calls := calls s2 @ [CaptureExceptionCall hub e],
            events := events s2 @ [\<lparr>ev_hub = hub, ev_payload = ExceptionPayload e,
                         ev_scope = hub_scope (hubs s2 hub)\<rparr>]\<rparr>)"
    using assms(5,6) by (simp add: deliver_def)
  show ?thesis
    using assms(1-4) m
    by (simp add: New_returns New_exit_5xx Let_def hub_Flush_fields update_scope_fields
        hub_CaptureException_def d)
qed

lemma New_entry_hub:
  assumes "New_entry Sprintf_v c s = (hub, c1, s1)"
  shows "hub = Suc (hub_count s)" and "hub_count s1 = Suc (hub_count s)"
    and "Locals c1 ''sentry_hub'' = Some (HubVal (Some hub))"
  using assms
  by (auto simp: New_entry_def hub_Clone_def Let_def update_scope_fields split: option.splits if_splits)

text \<open>The entry phase makes no capture, recovery or flush call and builds no event.\<close>

lemma New_entry_calls:
  assumes "New_entry Sprintf_v c s = (hub, c1, s1)"
  shows "calls s1 = calls s" and "events s1 = events s"
  using assms
  by (auto simp: New_entry_def hub_Clone_def Let_def update_scope_fields split: option.splits if_splits)

lemma New_entry_request_context:
  assumes "New_entry Sprintf_v c s = (hub, c1, s1)"
  shows "\<exists>req. contexts (hub_scope (hubs s1 hub)) ''request'' = Some req
           \<and> req ''headers'' = Some (VHeaders (extractHeaders c))"
  using assms
  by (auto simp: New_entry_def hub_Clone_def Let_def update_scope_fields scope_SetContext_def
      scope_SetTag_def scope_SetUser_def split: option.splits if_splits)

section \<open>Header filtering\<close>

lemma extractHeaders_visit_lookup:
  "extractHeaders_visit hs m k =
     (if k \<in> denylist then m k
      else (case map_of (rev hs) k of Some v \<Rightarrow> Some v | None \<Rightarrow> m k))"
  by (induction hs arbitrary: m) (auto simp: denylist_def split: option.splits)

lemma extractHeaders_lookup:
  "extractHeaders c k = (if k \<in> denylist then None else map_of (rev (VisitAll c)) k)"
  by (simp add: extractHeaders_def extractHeaders_visit_lookup split: option.splits)

lemma map_of_rev_distinct:
  "distinct (map fst hs) \<Longrightarrow> (k, v) \<in> set hs \<Longrightarrow> map_of (rev hs) k = Some v"
  by (simp add: distinct_rev rev_map [symmetric])

section \<open>Tag writes under a schedule\<close>



section \<open>The claims\<close>

text \<open>
  C1. A request whose handler chain returns an error classified with status 500 or more:
  the middleware captures once through the request's hub, the captured event is said to
  carry an \<open>error_details\<close> context with the status code, and the error is returned
  unchanged. Evaluated on a request whose handler returns a 503 with an initialised SDK:
  the error comes back unchanged and there is exactly one capture call, on the request's
  hub, but the one event built has no \<open>error_details\<close> context; the context, with
  status 503, is only in the hub's scope after the capture.
\<close>

theorem C1_event_without_error_details:
  "fst result_503 = Returns (Some (FiberError 503 ''unavailable''))
   \<and> filter is_capture (calls (snd (snd result_503))) =
       [CaptureExceptionCall 1 (FiberError 503 ''unavailable'')]
   \<and> length (events (snd (snd result_503))) = 1
   \<and> ev_hub (hd (events (snd (snd result_503)))) = 1
   \<and> ev_payload (hd (events (snd (snd result_503)))) =
       ExceptionPayload (FiberError 503 ''unavailable'')
   \<and> contexts (ev_scope (hd (events (snd (snd result_503))))) ''error_details'' = None
   \<and> context_entry (hub_scope (hubs (snd (snd result_503)) 1)) ''error_details'' ''status'' =
       Some (VInt 503)"
  by (simp add: result_503_def New_def New_cfg_def New_entry_def New_exit_def hub_Clone_def
      update_scope_def deliver_def hub_CaptureException_def hub_Flush_def sdk_ready_def
      sdk_fresh_def Init_def sentry_Init_def DefaultConfig_def DefaultMiddlewareConfig_def
      handler_503_def example_ctx_def CurrentHub_def context_entry_def scope_SetContext_def
      scope_SetTag_def scope_SetUser_def empty_scope_def StatusInternalServerError_def Let_def)

text \<open>
  C2. A request whose handler chain panics: the middleware recovers and forwards the panic
  value to the recovery path of the request's hub; when \<open>WaitForDelivery\<close> is set it then
  flushes that hub with the configured timeout; after that it raises the same value again
  when \<open>Repanic\<close> is set, and otherwise returns nil. \<open>Repanic\<close> is off in the
  configuration used when none is given.
\<close>

theorem C2_panic_recovered:
  assumes "New_entry Sprintf_v c s = (hub, c1, s1)"
    and "next (c1, s1) = (Panics v, c2, s2)"
  shows "(\<exists>s3. New config Sprintf_v next c s =
              (if Repanic (New_cfg config) then Panics v else Returns None, c2, s3)
            \<and> calls s3 = calls s2 @ RecoverCall hub v #
                 (if WaitForDelivery (New_cfg config)
                  then [FlushCall hub (Timeout (New_cfg config))] else []))
         \<and> Repanic (New_cfg []) = False"
  using assms
  by (simp add: New_panics New_deferred_def Let_def hub_Flush_fields hub_Recover_fields
      New_cfg_def DefaultMiddlewareConfig_def)

theorem C2_witness:
  "handler_panic (snd (New_entry example_Sprintf_v example_ctx sdk_ready)) =
     (Panics (UserPanic ''boom''), snd (New_entry example_Sprintf_v example_ctx sdk_ready))
   \<and> fst (New [] example_Sprintf_v handler_panic example_ctx sdk_ready) = Returns None
   \<and> fst (New [repanic_cfg] example_Sprintf_v handler_panic example_ctx sdk_ready) =
       Panics (UserPanic ''boom'')"
proof -
  obtain hub c1 s1 where e: "New_entry example_Sprintf_v example_ctx sdk_ready = (hub, c1, s1)"
    using prod_cases3 by blast
  have n: "handler_panic (c1, s1) = (Panics (UserPanic ''boom''), c1, s1)"
    by (simp add: handler_panic_def)
  from C2_panic_recovered [of example_Sprintf_v example_ctx sdk_ready hub c1 s1 handler_panic
        "UserPanic ''boom''" c1 s1 "[]", OF e n]
    C2_panic_recovered [of example_Sprintf_v example_ctx sdk_ready hub c1 s1 handler_panic
        "UserPanic ''boom''" c1 s1 "[repanic_cfg]", OF e n]
  show ?thesis
    using e n by (auto simp: New_cfg_def repanic_cfg_def)
qed

text \<open>
  C3. A request whose handler chain returns an error classified with a status below 500:
  the middleware returns that error unchanged and makes no capture call on any hub. Before
  it runs the handler chain it makes no call and builds no event; after the handler chain
  has returned, the only call it adds is the flush of the request's hub when
  \<open>WaitForDelivery\<close> is set, and it builds no event and changes no hub.
\<close>

theorem C3_below_500_not_captured:
  assumes "New_entry Sprintf_v c s = (hub, c1, s1)"
    and "next (c1, s1) = (Returns (Some e), c2, s2)"
    and "status_code e = Some code" and "code < 500"
  shows "calls s1 = calls s \<and> events s1 = events s
         \<and> (\<exists>s3. New config Sprintf_v next c s = (Returns (Some e), c2, s3)
               \<and> calls s3 = calls s2 @
                    (if WaitForDelivery (New_cfg config)
                     then [FlushCall hub (Timeout (New_cfg config))] else [])
               \<and> filter is_capture (calls s3) = filter is_capture (calls s2)
               \<and> events s3 = events s2
               \<and> hubs s3 = hubs s2)"
  using assms New_entry_calls [OF assms(1)]
  by (simp add: New_returns New_exit_below_500 hub_Flush_fields)

theorem C3_witness:
  "handler_404 (snd entered_A) = (Returns (Some (FiberError 404 ''not found'')), snd entered_A)
   \<and> status_code (FiberError 404 ''not found'') = Some 404 \<and> (404::int) < 500
   \<and> fst (New [wait_cfg] example_Sprintf_v handler_404 example_ctx sdk_ready) =
       Returns (Some (FiberError 404 ''not found''))
   \<and> calls (snd (snd (New [wait_cfg] example_Sprintf_v handler_404 example_ctx sdk_ready))) =
       calls sdk_ready @ [FlushCall 1 (5 * Second)]
   \<and> events (snd (snd (New [wait_cfg] example_Sprintf_v handler_404 example_ctx sdk_ready))) =
       events sdk_ready"
proof -
  obtain hub c1 s1 where e: "New_entry example_Sprintf_v example_ctx sdk_ready = (hub, c1, s1)"
    using prod_cases3 by blast
  have h: "hub = 1"
    using New_entry_hub(1) [OF e]
    by (simp add: sdk_ready_def sdk_fresh_def Init_def sentry_Init_def DefaultConfig_def Let_def)
  have n: "handler_404 (c1, s1) = (Returns (Some (FiberError 404 ''not found'')), c1, s1)"
    by (simp add: handler_404_def)
  have st: "status_code (FiberError 404 ''not found'') = Some 404" by simp
  have lt: "(404::int) < 500" by simp
  from C3_below_500_not_captured [of example_Sprintf_v example_ctx sdk_ready hub c1 s1
        handler_404 "FiberError 404 ''not found''" c1 s1 404 "[wait_cfg]", OF e n st lt]
  show ?thesis
    using e n h by (auto simp: entered_A_def New_cfg_def wait_cfg_def)
qed

text \<open>
  C4, as amended. The \<open>request\<close> context that the middleware attaches to the request's hub
  holds, under \<open>headers\<close>, the map built by \<open>extractHeaders\<close>. That map has no entry for
  the names \<open>Authorization\<close>, \<open>Cookie\<close> and \<open>X-Api-Key\<close>; for every other name it holds
  the value of the last header visited under that name, and nothing when no header has
  that name. When no header name is repeated, every header outside the denylist is in the
  map with its own value.
\<close>

theorem C4_headers_last_value:
  assumes "New_entry Sprintf_v c s = (hub, c1, s1)"
  shows "(\<exists>req. contexts (hub_scope (hubs s1 hub)) ''request'' = Some req
             \<and> req ''headers'' = Some (VHeaders (extractHeaders c)))
         \<and> (\<forall>k. extractHeaders c k =
                 (if k \<in> denylist then None else map_of (rev (VisitAll c)) k))
         \<and> (distinct (map fst (VisitAll c)) \<longrightarrow>
              (\<forall>(k, v) \<in> set (VisitAll c). k \<notin> denylist \<longrightarrow> extractHeaders c k = Some v))"
  using New_entry_request_context [OF assms]
  by (auto simp: extractHeaders_lookup map_of_rev_distinct)

theorem C4_witness:
  "distinct (map fst (VisitAll example_ctx))
   \<and> (''Accept'', ''*/*'') \<in> set (VisitAll example_ctx) \<and> ''Accept'' \<notin> denylist
   \<and> extractHeaders example_ctx ''Accept'' = Some ''*/*''
   \<and> extractHeaders example_ctx ''Authorization'' = None
   \<and> extractHeaders example_ctx ''Cookie'' = None
   \<and> extractHeaders example_ctx ''X-Api-Key'' = None"
proof -
  obtain hub c1 s1 where e: "New_entry example_Sprintf_v example_ctx sdk_ready = (hub, c1, s1)"
    using prod_cases3 by blast
  have d: "distinct (map fst (VisitAll example_ctx))"
    by (simp add: example_ctx_def)
  have m: "(''Accept'', ''*/*'') \<in> set (VisitAll example_ctx)"
    by (simp add: example_ctx_def)
  have n: "''Accept'' \<notin> denylist"
    by (simp add: denylist_def)
  from C4_headers_last_value [OF e] have
    a: "\<forall>k. extractHeaders example_ctx k =
           (if k \<in> denylist then None else map_of (rev (VisitAll example_ctx)) k)"
    and b: "\<forall>(k, v) \<in> set (VisitAll example_ctx). k \<notin> denylist \<longrightarrow> extractHeaders example_ctx k = Some v"
    using d by blast+
  from b m n have "extractHeaders example_ctx ''Accept'' = Some ''*/*''" by blast
  moreover from a have "extractHeaders example_ctx ''Authorization'' = None"
    "extractHeaders example_ctx ''Cookie'' = None" "extractHeaders example_ctx ''X-Api-Key'' = None"
    by (simp_all add: denylist_def)
  ultimately show ?thesis using d m n by simp
qed

text \<open>C4 as stated fails on a request that carries one header name twice: the first of
  the two \<open>X-Trace\<close> headers is a request header outside the denylist, and the map does
  not hold its value.\<close>

theorem C4_counterexample:
  "(''X-Trace'', ''a'') \<in> set (VisitAll dup_ctx) \<and> ''X-Trace'' \<notin> denylist
   \<and> extractHeaders dup_ctx ''X-Trace'' = Some ''b''
   \<and> extractHeaders dup_ctx ''X-Trace'' \<noteq> Some ''a''"
  by (simp add: dup_ctx_def example_ctx_def denylist_def extractHeaders_def)

text \<open>
  C5, as amended. \<open>Init\<close> with an empty DSN returns the error \<open>sentry DSN is required\<close>
  and leaves the SDK state as it was: the SDK's initialisation is not called and no client
  is bound. If no client was bound before, the capture calls that follow return a nil event
  id and build no event: \<open>CaptureException\<close> and \<open>RecoverWithSentry\<close> change no hub,
  \<open>CaptureMessage\<close> still writes its level into the global scope, and the captures made
  through a request context whose hub has no client build no event either.
\<close>

theorem C5_empty_dsn:
  assumes "DSN cfg = []"
  shows "Init reject cfg s = (Some (PlainError ''sentry DSN is required''), s)
         \<and> (hub_client (hubs s CurrentHub) = None \<longrightarrow>
              fst (CaptureException e (snd (Init reject cfg s))) = None
              \<and> events (snd (CaptureException e (snd (Init reject cfg s)))) = events s
              \<and> hubs (snd (CaptureException e (snd (Init reject cfg s)))) = hubs s
              \<and> fst (CaptureMessage m lvl (snd (Init reject cfg s))) = None
              \<and> events (snd (CaptureMessage m lvl (snd (Init reject cfg s)))) = events s
              \<and> hubs (snd (CaptureMessage m lvl (snd (Init reject cfg s)))) =
                  (hubs s)(CurrentHub :=
                     (hubs s CurrentHub)\<lparr>hub_scope := (hub_scope (hubs s CurrentHub))\<lparr>level := Some lvl\<rparr>\<rparr>)
              \<and> events (RecoverWithSentry (Some v) (snd (Init reject cfg s))) = events s
              \<and> hubs (RecoverWithSentry (Some v) (snd (Init reject cfg s))) = hubs s)
         \<and> (GetHubFromContext c = Some h \<and> hub_client (hubs s h) = None \<longrightarrow>
              (\<exists>t. CaptureExceptionFromContext c e (snd (Init reject cfg s)) = Inr (None, t)
                   \<and> events t = events s \<and> hubs t = hubs s)
              \<and> (\<exists>t. CaptureMessageFromContext c m lvl (snd (Init reject cfg s)) = Inr (None, t)
                   \<and> events t = events s))"
proof -
  have i: "Init reject cfg s = (Some (PlainError ''sentry DSN is required''), s)"
    using assms by (simp add: Init_def)
  have g: "hub_client (hubs s CurrentHub) = None \<Longrightarrow>
      fst (CaptureException e s) = None
      \<and> events (snd (CaptureException e s)) = events s
      \<and> hubs (snd (CaptureException e s)) = hubs s
      \<and> fst (CaptureMessage m lvl s) = None
      \<and> events (snd (CaptureMessage m lvl s)) = events s
      \<and> hubs (snd (CaptureMessage m lvl s)) =
          (hubs s)(CurrentHub :=
             (hubs s CurrentHub)\<lparr>hub_scope := (hub_scope (hubs s CurrentHub))\<lparr>level := Some lvl\<rparr>\<rparr>)
      \<and> events (RecoverWithSentry (Some v) s) = events s
      \<and> hubs (RecoverWithSentry (Some v) s) = hubs s"
    by (simp add: CaptureException_def CaptureMessage_def RecoverWithSentry_def
        ConfigureScope_def hub_CaptureException_def hub_CaptureMessage_def hub_Recover_def
        hub_Flush_def deliver_def update_scope_def scope_SetLevel_def)
  have f: "GetHubFromContext c = Some h \<and> hub_client (hubs s h) = None \<Longrightarrow>
      (\<exists>t. CaptureExceptionFromContext c e s = Inr (None, t)
           \<and> events t = events s \<and> hubs t = hubs s)
      \<and> (\<exists>t. CaptureMessageFromContext c m lvl s = Inr (None, t) \<and> events t = events s)"
    by (simp add: CaptureExceptionFromContext_def CaptureMessageFromContext_def
        hub_CaptureException_def hub_CaptureMessage_def deliver_def update_scope_def)
  show ?thesis
    using i g f by simp
qed

theorem C5_witness:
  "DSN DefaultConfig = []
   \<and> hub_client (hubs sdk_fresh CurrentHub) = None
   \<and> GetHubFromContext example_ctx = Some CurrentHub
   \<and> Init accept_all DefaultConfig sdk_fresh =
       (Some (PlainError ''sentry DSN is required''), sdk_fresh)
   \<and> fst (CaptureException (PlainError ''late'') (snd (Init accept_all DefaultConfig sdk_fresh))) = None
   \<and> events (snd (CaptureException (PlainError ''late'') (snd (Init accept_all DefaultConfig sdk_fresh)))) = []
   \<and> events (snd (CaptureMessage ''late'' LevelWarning (snd (Init accept_all DefaultConfig sdk_fresh)))) = []
   \<and> events (RecoverWithSentry (Some (UserPanic ''boom'')) (snd (Init accept_all DefaultConfig sdk_fresh))) = []
   \<and> (\<exists>t. CaptureExceptionFromContext example_ctx (PlainError ''late'')
              (snd (Init accept_all DefaultConfig sdk_fresh)) = Inr (None, t) \<and> events t = [])"
proof -
  have d: "DSN DefaultConfig = []" by (simp add: DefaultConfig_def)
  have u: "hub_client (hubs sdk_fresh CurrentHub) = None" by (simp add: sdk_fresh_def)
  have g: "GetHubFromContext example_ctx = Some CurrentHub"
    by (simp add: GetHubFromContext_def example_ctx_def)
  have ev: "events sdk_fresh = []" by (simp add: sdk_fresh_def)
  from C5_empty_dsn [OF d, of accept_all sdk_fresh "PlainError ''late''" "''late''" LevelWarning
      "UserPanic ''boom''" example_ctx CurrentHub]
  show ?thesis using d u g ev by auto
qed

text \<open>C5 as stated fails for \<open>CaptureMessage\<close>: called after the failed \<open>Init\<close>, with no
  client bound, it is not without effect, since it leaves its level in the global scope.\<close>

theorem C5_counterexample:
  "DSN DefaultConfig = []
   \<and> fst (Init accept_all DefaultConfig sdk_fresh) = Some (PlainError ''sentry DSN is required'')
   \<and> hub_client (hubs (snd (Init accept_all DefaultConfig sdk_fresh)) CurrentHub) = None
   \<and> level (hub_scope (hubs (snd (Init accept_all DefaultConfig sdk_fresh)) CurrentHub)) = None
   \<and> level (hub_scope (hubs (snd (CaptureMessage ''late'' LevelWarning
         (snd (Init accept_all DefaultConfig sdk_fresh)))) CurrentHub)) = Some LevelWarning"
  by (simp add: Init_def DefaultConfig_def sdk_fresh_def empty_scope_def CaptureMessage_def
      ConfigureScope_def hub_CaptureMessage_def deliver_def update_scope_def scope_SetLevel_def)

text \<open>
  C6, as amended. For every request, however the handler chain ends, the flush calls the
  middleware makes are: none when \<open>WaitForDelivery\<close> is off, and exactly one, on the
  request's hub with the configured timeout, when it is on. Before it runs the handler
  chain the middleware makes no call at all; the one flush is made after the handler chain
  has ended, in the recovery of a panic, or else at the exit of the request, whether or not
  an error was returned or captured.
\<close>

theorem C6_flush_whenever_configured:
  assumes "New_entry Sprintf_v c s = (hub, c1, s1)"
    and "next (c1, s1) = (out, c2, s2)"
  shows "calls s1 = calls s
         \<and> (\<exists>added. calls (snd (snd (New config Sprintf_v next c s))) = calls s2 @ added
               \<and> filter is_flush added =
                   (if WaitForDelivery (New_cfg config)
                    then [FlushCall hub (Timeout (New_cfg config))] else []))"
proof -
  have after: "\<exists>added. calls (snd (snd (New config Sprintf_v next c s))) = calls s2 @ added
               \<and> filter is_flush added =
                   (if WaitForDelivery (New_cfg config)
                    then [FlushCall hub (Timeout (New_cfg config))] else [])"
  proof (cases out)
    case (Panics v)
    with assms show ?thesis
      by (simp add: New_panics New_deferred_def Let_def hub_Flush_fields hub_Recover_fields)
  next
    case (Returns err)
    show ?thesis
    proof (cases err)
      case None
      with Returns assms show ?thesis
        by (simp add: New_returns New_exit_nil hub_Flush_fields)
    next
      case (Some e)
      show ?thesis
      proof (cases "status_code e")
        case None
        with Some Returns assms show ?thesis
          by (simp add: New_returns New_exit_nil_deref New_deferred_def Let_def
              hub_Flush_fields hub_Recover_fields)
      next
        case (Some code)
        note sc = this
        show ?thesis
        proof (cases "code < 500")
          case True
          with sc \<open>err = Some e\<close> Returns assms show ?thesis
            by (simp add: New_returns New_exit_below_500 hub_Flush_fields)
        next
          case False
          then have ge: "code \<ge> 500" by simp
          obtain msg where m: "error_Error e = Inr msg"
            using status_code_Error [OF sc] by blast
          from ge sc m \<open>err = Some e\<close> Returns assms show ?thesis
            by (simp add: New_returns New_exit_5xx Let_def hub_Flush_fields update_scope_fields
                hub_CaptureException_fields)
        qed
      qed
    qed
  qed
  show ?thesis
    using after New_entry_calls(1) [OF assms(1)] by simp
qed

theorem C6_witness:
  "handler_ok (snd entered_A) = (Returns None, snd entered_A)
   \<and> filter is_flush (calls (snd (snd (New [] example_Sprintf_v handler_ok example_ctx sdk_ready)))) =
       filter is_flush (calls sdk_ready)
   \<and> filter is_flush (calls (snd (snd (New [wait_cfg] example_Sprintf_v handler_ok example_ctx sdk_ready)))) =
       filter is_flush (calls sdk_ready) @ [FlushCall 1 (5 * Second)]"
proof -
  obtain hub c1 s1 where e: "New_entry example_Sprintf_v example_ctx sdk_ready = (hub, c1, s1)"
    using prod_cases3 by blast
  have h: "hub = 1"
    using New_entry_hub(1) [OF e]
    by (simp add: sdk_ready_def sdk_fresh_def Init_def sentry_Init_def DefaultConfig_def Let_def)
  have n: "handler_ok (c1, s1) = (Returns None, c1, s1)"
    by (simp add: handler_ok_def)
  from C6_flush_whenever_configured [of example_Sprintf_v example_ctx sdk_ready hub c1 s1
        handler_ok "Returns None" c1 s1 "[]", OF e n]
    C6_flush_whenever_configured [of example_Sprintf_v example_ctx sdk_ready hub c1 s1
        handler_ok "Returns None" c1 s1 "[wait_cfg]", OF e n]
  show ?thesis
    using e n h by (auto simp: entered_A_def New_cfg_def DefaultMiddlewareConfig_def wait_cfg_def)
qed

text \<open>C6 as stated fails on a request whose handler returns nil, with \<open>WaitForDelivery\<close>
  set: nothing panics and nothing is captured, and the middleware flushes the request's
  hub.\<close>

theorem C6_counterexample:
  "fst (New [wait_cfg] example_Sprintf_v handler_ok example_ctx sdk_ready) = Returns None
   \<and> filter is_capture (calls (snd (snd (New [wait_cfg] example_Sprintf_v handler_ok example_ctx sdk_ready)))) = []
   \<and> filter is_flush (calls (snd (snd (New [wait_cfg] example_Sprintf_v handler_ok example_ctx sdk_ready)))) =
       [FlushCall 1 (5 * Second)]"
  by (simp add: New_def New_cfg_def New_entry_def New_exit_def hub_Clone_def
      update_scope_def hub_Flush_def sdk_ready_def sdk_fresh_def Init_def sentry_Init_def
      DefaultConfig_def wait_cfg_def handler_ok_def example_ctx_def CurrentHub_def Let_def)

text \<open>
  C7. A request whose handler chain returns nil without panicking: the middleware returns
  nil and makes no capture call on any hub. Before it runs the handler chain it makes no
  call and builds no event; after the handler chain has returned, the only call it adds is
  the flush of the request's hub when \<open>WaitForDelivery\<close> is set, and it builds no event
  and changes no hub.
\<close>

theorem C7_nil_not_captured:
  assumes "New_entry Sprintf_v c s = (hub, c1, s1)"
    and "next (c1, s1) = (Returns None, c2, s2)"
  shows "calls s1 = calls s \<and> events s1 = events s
         \<and> (\<exists>s3. New config Sprintf_v next c s = (Returns None, c2, s3)
               \<and> calls s3 = calls s2 @
                    (if WaitForDelivery (New_cfg config)
                     then [FlushCall hub (Timeout (New_cfg config))] else [])
               \<and> filter is_capture (calls s3) = filter is_capture (calls s2)
               \<and> events s3 = events s2
               \<and> hubs s3 = hubs s2)"
  using assms New_entry_calls [OF assms(1)]
  by (simp add: New_returns New_exit_nil hub_Flush_fields)

theorem C7_witness:
  "handler_ok (snd entered_A) = (Returns None, snd entered_A)
   \<and> fst (New [] example_Sprintf_v handler_ok example_ctx sdk_ready) = Returns None
   \<and> calls (snd (snd (New [] example_Sprintf_v handler_ok example_ctx sdk_ready))) =
       calls sdk_ready
   \<and> events (snd (snd (New [] example_Sprintf_v handler_ok example_ctx sdk_ready))) =
       events sdk_ready"
proof -
  obtain hub c1 s1 where e: "New_entry example_Sprintf_v example_ctx sdk_ready = (hub, c1, s1)"
    using prod_cases3 by blast
  have n: "handler_ok (c1, s1) = (Returns None, c1, s1)"
    by (simp add: handler_ok_def)
  from C7_nil_not_captured [of example_Sprintf_v example_ctx sdk_ready hub c1 s1
        handler_ok c1 s1 "[]", OF e n]
  show ?thesis
    using e n by (auto simp: entered_A_def New_cfg_def DefaultMiddlewareConfig_def)
qed






text \<open>
  C10. The global \<open>CaptureMessage\<close>: the capture call is made first, and an event built by
  it carries the global scope as it was before the call, so not the level passed in; the
  level is written to the global scope afterwards and is still there when the call has
  returned, where the event of the next capture picks it up.
\<close>

theorem C10_level_after_capture:
  assumes "CaptureMessage message lvl s = (ev, s')"
  shows "calls s' = calls s @ [CaptureMessageCall CurrentHub message]
         \<and> hubs (snd (hub_CaptureMessage CurrentHub message s)) = hubs s
         \<and> level (hub_scope (hubs s' CurrentHub)) = Some lvl
         \<and> (\<forall>opts. hub_client (hubs s CurrentHub) = Some opts \<and> BeforeSend opts = Some \<longrightarrow>
               events s' = events s @
                 [\<lparr>ev_hub = CurrentHub, ev_payload = MessagePayload message,
                   ev_scope = hub_scope (hubs s CurrentHub)\<rparr>]
               \<and> level (ev_scope (last (events (snd (CaptureMessage message2 lvl2 s'))))) =
                   Some lvl)"
proof -
  have s': "s' = update_scope CurrentHub (scope_SetLevel lvl)
                  (snd (hub_CaptureMessage CurrentHub message s))"
    using assms by (auto simp: CaptureMessage_def ConfigureScope_def split: prod.splits)
  have c: "calls s' = calls s @ [CaptureMessageCall CurrentHub message]"
    by (simp add: s' update_scope_fields hub_CaptureMessage_fields)
  have l: "level (hub_scope (hubs s' CurrentHub)) = Some lvl"
    by (simp add: s' update_scope_fields scope_SetLevel_def)
  have e: "events s' = events s @
             [\<lparr>ev_hub = CurrentHub, ev_payload = MessagePayload message,
               ev_scope = hub_scope (hubs s CurrentHub)\<rparr>]
           \<and> level (ev_scope (last (events (snd (CaptureMessage message2 lvl2 s'))))) = Some lvl"
    if b: "hub_client (hubs s CurrentHub) = Some opts" "BeforeSend opts = Some" for opts
  proof -
    have d: "\<And>t m. hub_client (hubs t CurrentHub) = Some opts \<Longrightarrow>
        hub_CaptureMessage CurrentHub m t =
          (Some (length (events t)),
           t\<lparr>calls := calls t @ [CaptureMessageCall CurrentHub m],
             events := events t @ [\<lparr>ev_hub = CurrentHub, ev_payload = MessagePayload m,
                                    ev_scope = hub_scope (hubs t CurrentHub)\<rparr>]\<rparr>)"
      using b(2) by (simp add: hub_CaptureMessage_def deliver_def)
    have c': "hub_client (hubs s' CurrentHub) = Some opts"
      using b(1) by (simp add: s' update_scope_fields hub_CaptureMessage_fields)
    show ?thesis
      using l d [OF b(1), of message] d [OF c', of message2]
      by (simp add: s' update_scope_fields CaptureMessage_def ConfigureScope_def)
  qed
  show ?thesis
    using c l e by (simp add: hub_CaptureMessage_fields)
qed

theorem C10_witness:
  "hub_client (hubs sdk_ready CurrentHub) \<noteq> None
   \<and> level (hub_scope (hubs sdk_ready CurrentHub)) = None
   \<and> level (ev_scope (last (events (snd (CaptureMessage ''m'' LevelWarning sdk_ready))))) = None
   \<and> level (hub_scope (hubs (snd (CaptureMessage ''m'' LevelWarning sdk_ready)) CurrentHub)) =
       Some LevelWarning
   \<and> level (ev_scope (last (events (snd (CaptureMessage ''n'' LevelError
        (snd (CaptureMessage ''m'' LevelWarning sdk_ready))))))) = Some LevelWarning"
proof -
  obtain opts where c: "hub_client (hubs sdk_ready CurrentHub) = Some opts"
    and b: "BeforeSend opts = Some"
    by (simp add: sdk_ready_def sdk_fresh_def Init_def sentry_Init_def DefaultConfig_def Let_def)
  obtain ev s' where r: "CaptureMessage ''m'' LevelWarning sdk_ready = (ev, s')"
    by (cases "CaptureMessage ''m'' LevelWarning sdk_ready")
  have l0: "level (hub_scope (hubs sdk_ready CurrentHub)) = None"
    by (simp add: sdk_ready_def sdk_fresh_def Init_def sentry_Init_def DefaultConfig_def Let_def
        empty_scope_def)
  from C10_level_after_capture [OF r, of "''n''" LevelError]
  show ?thesis
    using c b r l0 by simp
qed


end
